theory Spec2Isabelle
  imports Complex_Main "HOL-Library.Word"
begin

section \<open>JavaScript values\<close>

text \<open>
  A JavaScript string is a sequence of UTF-16 code units; \<open>charCodeAt\<close> reads one of
  them as a number in 0..65535, and \<open>length\<close> counts them.
\<close>

type_synonym jsstring = "16 word list"

text \<open>
  The remainder operator \<open>%\<close> of JavaScript on integers: the sign of the result is the
  sign of the dividend.
\<close>

definition js_rem :: "int \<Rightarrow> int \<Rightarrow> int" where
  "js_rem a b = sgn a * (\<bar>a\<bar> mod \<bar>b\<bar>)"

text \<open>Decimal rendering of an integer, as a template literal \<open>${n}\<close> prints it.\<close>

fun digits :: "nat \<Rightarrow> string" where
  "digits n =
     (if n < 10 then [''0123456789'' ! n]
      else digits (n div 10) @ [''0123456789'' ! (n mod 10)])"

declare digits.simps [simp del]

definition number_to_string :: "int \<Rightarrow> string" where
  "number_to_string i = (if i < 0 then CHR ''-'' # digits (nat (- i)) else digits (nat i))"

section \<open>CashFlowAnalysis: group colours (part\_001, simpleHash and getNodeColor)\<close>

text \<open>
  One round of the loop body of \<open>simpleHash\<close>:
  \<^verbatim>\<open>hash = ((hash << 5) - hash) + char; hash = hash & hash;\<close>
  The shift works on the 32-bit value of \<open>hash\<close>, the subtraction and the addition are
  exact on numbers of this size, and \<open>hash & hash\<close> reduces the sum to a signed 32-bit
  integer again; on 32-bit words this is wrap-around arithmetic.
\<close>

definition hash_step :: "32 word \<Rightarrow> 16 word \<Rightarrow> 32 word" where
  "hash_step hash c = (push_bit 5 hash - hash) + ucast c"

text \<open>The loop runs over the code units from left to right; the result is \<open>Math.abs(hash)\<close>
  of the signed value.\<close>

definition simpleHash :: "jsstring \<Rightarrow> int" where
  "simpleHash str = \<bar>sint (foldl hash_step 0 str)\<bar>"

definition color_hue :: "int \<Rightarrow> int" where
  "color_hue hash = js_rem hash 360"

definition color_saturation :: "int \<Rightarrow> int" where
  "color_saturation hash = 70 + js_rem hash 30"

definition color_lightness :: "int \<Rightarrow> int" where
  "color_lightness hash = 45 + js_rem hash 20"

text \<open>The template literal \<^verbatim>\<open>`hsl(${hue}, ${saturation}%, ${lightness}%)`\<close>.\<close>

definition hsl :: "int \<Rightarrow> int \<Rightarrow> int \<Rightarrow> string" where
  "hsl hue saturation lightness =
     ''hsl('' @ number_to_string hue @ '', '' @ number_to_string saturation @ ''%, ''
       @ number_to_string lightness @ ''%)''"

definition group_color :: "jsstring \<Rightarrow> string" where
  "group_color grp =
     (let hash = simpleHash grp
      in hsl (color_hue hash) (color_saturation hash) (color_lightness hash))"

text \<open>
  \<open>getNodeColor(group)\<close> of CashFlowAnalysis with its \<open>colorCache\<close> passed explicitly:
  a hit returns the stored string, a miss computes the colour and stores it.
\<close>

type_synonym color_cache = "jsstring \<rightharpoonup> string"

definition CashFlowAnalysis_getNodeColor :: "jsstring \<Rightarrow> color_cache \<Rightarrow> string \<times> color_cache" where
  "CashFlowAnalysis_getNodeColor grp colorCache =
     (case colorCache grp of
        Some color \<Rightarrow> (color, colorCache)
      | None \<Rightarrow> (let color = group_color grp in (color, colorCache(grp \<mapsto> color))))"

text \<open>A session: the cache starts absent (empty) and the calls follow one another.\<close>

definition color_session :: "jsstring list \<Rightarrow> color_cache" where
  "color_session groups = foldl (\<lambda>c g. snd (CashFlowAnalysis_getNodeColor g c)) Map.empty groups"

section \<open>NetworkAnalysis: risk colours (alerts.js)\<close>

text \<open>
  Risk scores, amounts and coordinates are JavaScript numbers. They are modelled as real
  numbers: finite values, exact arithmetic; \<open>Math.max\<close>, \<open>Math.min\<close> and
  \<open>Math.sqrt\<close> are \<open>max\<close>, \<open>min\<close> and \<open>sqrt\<close>.
\<close>

definition NetworkAnalysis_getNodeColor :: "real \<Rightarrow> string" where
  "NetworkAnalysis_getNodeColor riskScore =
     (if riskScore \<ge> 0.7 then ''#dc3545''
      else if riskScore \<ge> 0.3 then ''#ffc107''
      else ''#28a745'')"

definition NetworkAnalysis_getLinkColor :: "real \<Rightarrow> string" where
  "NetworkAnalysis_getLinkColor riskScore =
     (if riskScore \<ge> 0.7 then ''#dc3545''
      else if riskScore \<ge> 0.3 then ''#ffc107''
      else ''#17a2b8'')"

text \<open>The helper \<open>riskColor\<close> of \<open>addTransactionFlows\<close> (map view).\<close>

definition riskColor :: "real \<Rightarrow> string" where
  "riskColor risk =
     (if risk > 0.7 then ''#dc3545''
      else if risk > 0.4 then ''#ffc107''
      else ''#28a745'')"

text \<open>The marker colour of \<open>addAccountMarkers\<close> (map view).\<close>

definition markerColor :: "real \<Rightarrow> string" where
  "markerColor avg_risk =
     (if avg_risk > 0.7 then ''#dc3545''
      else if avg_risk > 0.4 then ''#ffc107''
      else ''#28a745'')"

text \<open>The risk level \<open>showFlowDetails\<close> prints for a flow (map view, opened by a click on
  its line): the text and the class of the panel.\<close>

definition showFlowDetails_riskLevel :: "real \<Rightarrow> string \<times> string" where
  "showFlowDetails_riskLevel link_risk_score =
     (if link_risk_score > 0.7 then (''High'', ''danger'')
      else if link_risk_score > 0.4 then (''Medium'', ''warning'')
      else (''Low'', ''success''))"

text \<open>\<open>getLinkColor\<close> and \<open>getFlowDashArray\<close> of CashFlowAnalysis (part\_001).\<close>

definition CashFlowAnalysis_getLinkColor :: "real \<Rightarrow> string" where
  "CashFlowAnalysis_getLinkColor risk =
     (if risk \<ge> 0.7 then ''#dc3545''
      else if risk \<ge> 0.4 then ''#ffc107''
      else ''#28a745'')"

definition getFlowDashArray :: "real \<Rightarrow> string option" where
  "getFlowDashArray risk =
     (if risk \<ge> 0.7 then Some ''10, 5''
      else if risk \<ge> 0.4 then Some ''5, 5''
      else None)"

text \<open>
  The tier a colour stands for, as the comments of the source name them: \<open>#dc3545\<close> is
  "High risk - red", \<open>#ffc107\<close> is "Medium risk - yellow", the other colours are the
  low-risk ones.
\<close>

datatype tier = High | Medium | Low

definition tier_of_color :: "string \<Rightarrow> tier" where
  "tier_of_color c =
     (if c = ''#dc3545'' then High else if c = ''#ffc107'' then Medium else Low)"

section \<open>NetworkAnalysis: the tiered layout (alerts.js, applyHierarchicalLayout)\<close>

record node =
  node_id :: jsstring
  avg_risk_score :: real
  node_from_bank :: "jsstring option"
  node_to_bank :: "jsstring option"
  bank_code :: "jsstring option"
  country_code :: "jsstring option"
  fx :: "real option"
  fy :: "real option"

text \<open>
  The body of \<open>levels.forEach\<close>: every node of the level gets the band's \<open>y\<close> and the
  \<open>x\<close> of its index.
\<close>

definition place_level :: "real \<Rightarrow> real \<Rightarrow> nat \<Rightarrow> node list \<Rightarrow> node list" where
  "place_level width height levelIndex level =
     (let levelHeight = height / 4;
          y = levelHeight * (real levelIndex + 1);
          xStep = width / (real (length level) + 1)
      in map (\<lambda>(nodeIndex, n). n\<lparr>fx := Some (xStep * (real nodeIndex + 1)), fy := Some y\<rparr>)
           (enumerate 0 level))"

text \<open>
  The layout mutates the nodes in place; the model returns the three levels with their
  nodes positioned (no node is in two levels).
\<close>

definition applyHierarchicalLayout :: "real \<Rightarrow> real \<Rightarrow> node list \<Rightarrow> node list list" where
  "applyHierarchicalLayout width height nodes =
     (let highRisk = filter (\<lambda>n. avg_risk_score n > 0.7) nodes;
          mediumRisk = filter (\<lambda>n. avg_risk_score n > 0.4 \<and> avg_risk_score n \<le> 0.7) nodes;
          lowRisk = filter (\<lambda>n. avg_risk_score n \<le> 0.4) nodes;
          levels = [highRisk, mediumRisk, lowRisk]
      in map (\<lambda>(levelIndex, level). place_level width height levelIndex level)
           (enumerate 0 levels))"

text \<open>The band a node of a given risk score is placed in: the index of its level.\<close>

definition layout_tier :: "real \<Rightarrow> tier" where
  "layout_tier r =
     (if r > 0.7 then High else if r > 0.4 \<and> r \<le> 0.7 then Medium else Low)"

section \<open>Stroke weights\<close>

record link =
  link_source :: jsstring
  link_target :: jsstring
  amount :: real
  risk_score :: real
  link_from_bank :: "jsstring option"
  link_to_bank :: "jsstring option"

text \<open>
  Amounts are non-negative numbers; \<open>Math.sqrt\<close> of a negative number is NaN, which the
  model does not have, so the properties of the weights are stated for amounts from 0 on.
\<close>

text \<open>Graph view, \<open>drawLinks\<close>: \<^verbatim>\<open>Math.max(2, Math.min(8, d.amount / 500000))\<close>.\<close>

definition drawLinks_stroke_width :: "real \<Rightarrow> real" where
  "drawLinks_stroke_width amt = max 2 (min 8 (amt / 500000))"

text \<open>Map view, \<open>addTransactionFlows\<close>: \<^verbatim>\<open>Math.max(3, Math.sqrt(link.amount / 100000))\<close>.\<close>

definition polyline_weight :: "real \<Rightarrow> real" where
  "polyline_weight amt = max 3 (sqrt (amt / 100000))"

text \<open>Graph view, \<open>getEdgeWidth(link, metric)\<close>; the metric is the value of a select box.\<close>

definition getEdgeWidth :: "link \<Rightarrow> string \<Rightarrow> real" where
  "getEdgeWidth l metric =
     (if metric = ''transaction_count'' then max 1 (min 8 (1 * 2))
      else if metric = ''risk_score'' then max 1 (min 8 (risk_score l * 10))
      else max 1 (min 8 (sqrt (amount l / 50000))))"

text \<open>Cash-flow map, \<open>updateNetworkView\<close>:
  \<^verbatim>\<open>Math.min(Math.max(flow.amount / 100000, 2), 8)\<close>.\<close>

definition flowLine_weight :: "real \<Rightarrow> real" where
  "flowLine_weight amt = min (max (amt / 100000) 2) 8"

section \<open>NetworkAnalysis: interpolation along a flow path (alerts.js)\<close>

text \<open>
  \<open>interpolatePath(latlngs, t)\<close>. Reading an array out of range gives \<open>undefined\<close>; the
  clamped branches return it as it is, and the interpolating branch raises a TypeError when
  it indexes into it.
\<close>

datatype interp_result = Point real real | Undefined | TypeError

definition array_get :: "(real \<times> real) list \<Rightarrow> nat \<Rightarrow> (real \<times> real) option" where
  "array_get xs i = (if i < length xs then Some (xs ! i) else None)"

definition interpolatePath :: "(real \<times> real) list \<Rightarrow> real \<Rightarrow> interp_result" where
  "interpolatePath latlngs t =
     (if t \<le> 0 then
        (case array_get latlngs 0 of None \<Rightarrow> Undefined | Some p \<Rightarrow> Point (fst p) (snd p))
      else if t \<ge> 1 then
        (if latlngs = [] then Undefined
         else (case array_get latlngs (length latlngs - 1) of
                 None \<Rightarrow> Undefined | Some p \<Rightarrow> Point (fst p) (snd p)))
      else
        (case (array_get latlngs 0, array_get latlngs 1) of
           (Some start, Some end) \<Rightarrow>
             Point (fst start + (fst end - fst start) * t) (snd start + (snd end - snd start) * t)
         | _ \<Rightarrow> TypeError))"

text \<open>
  One marker dot: where it is drawn (the value handed to the marker), its offset along the
  path and its speed.
  One frame of \<open>animateDots\<close> advances the offset, wraps it to 0 past 1, and moves the dot
  to the interpolated position; an exception of \<open>setLatLng\<close> is caught and leaves the dot.
\<close>

record dot_point =
  dot :: interp_result
  offset :: real
  speed :: real

definition advance_point :: "(real \<times> real) list \<Rightarrow> dot_point \<Rightarrow> dot_point" where
  "advance_point latlngs p =
     (let o1 = offset p + speed p;
          o2 = (if o1 > 1 then 0 else o1)
      in (case interpolatePath latlngs o2 of
            Point lat lng \<Rightarrow> p\<lparr>dot := Point lat lng, offset := o2\<rparr>
          | _ \<Rightarrow> p\<lparr>offset := o2\<rparr>))"

text \<open>The five dots a flow starts with: offsets \<open>i / 5\<close>, speed 0.005.\<close>

definition initial_points :: "(real \<times> real) list \<Rightarrow> dot_point list" where
  "initial_points latlngs =
     map (\<lambda>i. let t = real i / 5
               in \<lparr>dot = interpolatePath latlngs t, offset = t, speed = 0.005\<rparr>)
       [0..<5]"


section \<open>The coordinate lookup (fetchCountryCoordinates)\<close>

text \<open>
  The values a caller can hand to \<open>fetchCountryCoordinates\<close>. Objects, arrays and
  functions are one case: only their type matters here.
\<close>

datatype jsval = JUndefined | JNull | JBool bool | JNum real | JStr jsstring | JObject

text \<open>
  \<open>String.prototype.trim\<close> removes white space and line terminators from both ends:
  the code units TAB, LF, VT, FF, CR, SP, NBSP, U+1680, U+2000 to U+200A, U+2028, U+2029,
  U+202F, U+205F, U+3000 and U+FEFF.
\<close>

definition is_js_space :: "16 word \<Rightarrow> bool" where
  "is_js_space c =
     (c \<in> set [0x9, 0xA, 0xB, 0xC, 0xD, 0x20, 0xA0, 0x1680, 0x2028, 0x2029, 0x202F, 0x205F,
                0x3000, 0xFEFF]
      \<or> (0x2000 \<le> c \<and> c \<le> 0x200A))"

definition js_trim :: "jsstring \<Rightarrow> jsstring" where
  "js_trim s = rev (dropWhile is_js_space (rev (dropWhile is_js_space s)))"

text \<open>
  What the external lookup service answers to one request. \<open>TransportError\<close>: \<open>fetch\<close>
  rejects. \<open>Response ok p\<close>: a response with its \<open>ok\<close> flag and its body. A body is
  \<open>InvalidJson\<close> (\<open>response.json()\<close> rejects) or \<open>Json d\<close>, where \<open>d\<close> describes the
  parsed value \<open>data\<close> by everything the two functions read of it:

  \<^item> \<open>NoElements\<close>: \<open>data.length > 0\<close> is false (an empty array, \<open>null\<close>, a number, an
    object without a positive length, and so on);
  \<^item> \<open>ArrayOf e\<close>: a non-empty array with the first element \<open>e\<close>;
  \<^item> \<open>ArrayLike e\<close>: not an array, but \<open>data.length > 0\<close> holds and \<open>data[0]\<close> is \<open>e\<close> (a
    string, an object with a \<open>length\<close>);
  \<^item> the element is \<open>Nullish\<close> (\<open>null\<close> or \<open>undefined\<close>: reading \<open>.latlng\<close> of it throws)
    or \<open>Elem l n\<close>;
  \<^item> \<open>l\<close> is \<open>Falsy\<close> (\<open>latlng\<close> is absent or falsy) or \<open>Truthy v0 v1\<close> with the values
    of \<open>latlng[0]\<close> and \<open>latlng[1]\<close>, \<open>undefined\<close> where \<open>latlng\<close> has no such index;
  \<^item> \<open>n\<close> is \<open>NoName\<close> (\<open>name\<close> is \<open>null\<close> or \<open>undefined\<close>: reading \<open>.common\<close> of it
    throws) or \<open>Common c\<close> with the value \<open>c\<close> of \<open>name.common\<close>.
\<close>

datatype name_obs = NoName | Common jsval

datatype latlng_obs = Falsy | Truthy jsval jsval

datatype first_elem = Nullish | Elem latlng_obs name_obs

datatype parsed = NoElements | ArrayOf first_elem | ArrayLike first_elem

datatype payload = InvalidJson | Json parsed

datatype response = TransportError | Response bool payload

type_synonym lookup_service = "jsval \<Rightarrow> response"

record location =
  lat :: real
  lng :: real
  loc_name :: jsval

text \<open>
  The object \<open>fetchCountryCoordinates\<close> returns: \<open>Coordinates\<close> when its \<open>lat\<close> and
  \<open>lng\<close> are numbers, \<open>Garbled\<close> when one of them is not. A garbled object is as
  truthy as any other; the model does not follow the coordinates that are computed from
  one.
\<close>

datatype located = Coordinates location | Garbled

definition returned_object :: "jsval \<Rightarrow> jsval \<Rightarrow> jsval \<Rightarrow> located" where
  "returned_object v0 v1 c =
     (case v0 of
        JNum la \<Rightarrow>
          (case v1 of
             JNum lo \<Rightarrow> Coordinates \<lparr>lat = la, lng = lo, loc_name = c\<rparr>
           | _ \<Rightarrow> Garbled)
      | _ \<Rightarrow> Garbled)"

text \<open>
  From \<open>data[0].latlng\<close> on, the two functions are the same: with a truthy \<open>latlng\<close> the
  object \<^verbatim>\<open>{lat: latlng[0], lng: latlng[1], name: data[0].name.common}\<close> is returned; a
  TypeError on the way is caught, and the function returns \<open>null\<close>, as it does for a falsy
  \<open>latlng\<close>.
\<close>

fun read_first :: "first_elem \<Rightarrow> located option" where
  "read_first Nullish = None"
| "read_first (Elem Falsy n) = None"
| "read_first (Elem (Truthy v0 v1) NoName) = None"
| "read_first (Elem (Truthy v0 v1) (Common c)) = Some (returned_object v0 v1 c)"

text \<open>
  The part of \<open>NetworkAnalysis.fetchCountryCoordinates\<close> after the request; its test is
  \<^verbatim>\<open>Array.isArray(data) && data.length > 0 && data[0].latlng\<close>.
\<close>

definition NetworkAnalysis_read :: "response \<Rightarrow> located option" where
  "NetworkAnalysis_read r =
     (case r of
        TransportError \<Rightarrow> None
      | Response ok p \<Rightarrow>
          if \<not> ok then None
          else (case p of
                  InvalidJson \<Rightarrow> None
                | Json d \<Rightarrow>
                    (case d of
                       NoElements \<Rightarrow> None
                     | ArrayOf e \<Rightarrow> read_first e
                     | ArrayLike e \<Rightarrow> None)))"

text \<open>
  The part of \<open>CashFlowAnalysis.fetchCountryCoordinates\<close> after the request; its test is
  \<^verbatim>\<open>data && data.length > 0 && data[0].latlng\<close>, which does not ask for an array.
\<close>

definition CashFlowAnalysis_read :: "response \<Rightarrow> located option" where
  "CashFlowAnalysis_read r =
     (case r of
        TransportError \<Rightarrow> None
      | Response ok p \<Rightarrow>
          if \<not> ok then None
          else (case p of
                  InvalidJson \<Rightarrow> None
                | Json d \<Rightarrow>
                    (case d of
                       NoElements \<Rightarrow> None
                     | ArrayOf e \<Rightarrow> read_first e
                     | ArrayLike e \<Rightarrow> read_first e)))"

text \<open>
  The effects a resolver has on the world: the requests sent to the lookup service, in
  order (each by the value interpolated into the URL), and the number of values drawn from
  \<open>Math.random\<close>, whose successive values are a parameter \<open>rand\<close>.
\<close>

record io_state =
  requests :: "jsval list"
  random_calls :: nat

text \<open>The call \<open>fetch(url)\<close>: the request leaves when the call is made.\<close>

definition send_request :: "jsval \<Rightarrow> 'a io_state_scheme \<Rightarrow> 'a io_state_scheme" where
  "send_request code st = st\<lparr>requests := requests st @ [code]\<rparr>"

text \<open>\<open>NetworkAnalysis.fetchCountryCoordinates(code)\<close> (alerts.js), from the call to the
  value of the promise.\<close>

definition NetworkAnalysis_fetchCountryCoordinates ::
  "lookup_service \<Rightarrow> jsval \<Rightarrow> 'a io_state_scheme \<Rightarrow> located option \<times> 'a io_state_scheme" where
  "NetworkAnalysis_fetchCountryCoordinates service code st =
     (case code of
        JStr s \<Rightarrow>
          if s = [] \<or> length (js_trim s) \<noteq> 2 then (None, st)
          else (NetworkAnalysis_read (service code), send_request code st)
      | _ \<Rightarrow> (None, st))"


section \<open>NetworkAnalysis: locations of the nodes and flow paths (alerts.js)\<close>



text \<open>The test \<^verbatim>\<open>c && typeof c === 'string' && c.length === 2\<close>.\<close>

definition two_letter :: "jsstring option \<Rightarrow> bool" where
  "two_letter c = (case c of None \<Rightarrow> False | Some s \<Rightarrow> length s = 2)"

text \<open>
  A plain object \<open>{}\<close> used as a dictionary inherits the properties of
  \<open>Object.prototype\<close>: reading one of these keys gives a function (an object for
  \<open>__proto__\<close>), which is truthy and not a string, whatever was stored.
\<close>

definition js_string :: "string \<Rightarrow> jsstring" where
  "js_string s = map (\<lambda>c. of_nat (of_char c)) s"











text \<open>
  What the map draws for a flow: a polyline through its points, or a circle.
  \<open>InvalidPolyline\<close> stands for a polyline asked for with an endpoint whose coordinates are
  not numbers; what the map library makes of it is outside the model.
\<close>

datatype shape = Polyline "(real \<times> real) list" | Circle "real \<times> real" real | InvalidPolyline

text \<open>The test \<^verbatim>\<open>c && c.length === 2\<close> of \<open>addTransactionFlows\<close>, and the endpoint it
  resolves from a bank code.\<close>

definition endpoint ::
  "lookup_service \<Rightarrow> jsstring option \<Rightarrow> 'a io_state_scheme \<Rightarrow> located option \<times> 'a io_state_scheme" where
  "endpoint service bankCode st =
     (if two_letter bankCode
      then NetworkAnalysis_fetchCountryCoordinates service (JStr (the bankCode)) st
      else (None, st))"

text \<open>
  The body of the loop of \<open>addTransactionFlows\<close> up to the polyline: both endpoints from
  the bank codes of the link, else from the locations of its nodes (\<open>locationMap\<close>, here
  the nodes located with numbers); a flow with a missing endpoint is skipped, every other
  flow is a polyline of its two endpoints.
\<close>

definition transaction_flow_path ::
  "lookup_service \<Rightarrow> (jsstring \<rightharpoonup> location) \<Rightarrow> link \<Rightarrow> 'a io_state_scheme
     \<Rightarrow> shape option \<times> 'a io_state_scheme" where
  "transaction_flow_path service locationMap l st =
     (let (src0, st1) = endpoint service (link_from_bank l) st;
          (tgt0, st2) = endpoint service (link_to_bank l) st1;
          src = (case src0 of
                   None \<Rightarrow> map_option Coordinates (locationMap (link_source l))
                 | Some x \<Rightarrow> Some x);
          tgt = (case tgt0 of
                   None \<Rightarrow> map_option Coordinates (locationMap (link_target l))
                 | Some x \<Rightarrow> Some x)
      in (case (src, tgt) of
            (Some (Coordinates a), Some (Coordinates b)) \<Rightarrow>
               (Some (Polyline [(lat a, lng a), (lat b, lng b)]), st2)
          | (Some x, Some y) \<Rightarrow> (Some InvalidPolyline, st2)
          | _ \<Rightarrow> (None, st2)))"

section \<open>CashFlowAnalysis: the bank coordinates and their cache (part\_001, updateNetworkView)\<close>

record flow =
  flow_from_bank :: jsstring
  flow_to_bank :: jsstring
  flow_amount :: real
  avg_risk :: real












text \<open>
  The line of a flow in \<open>updateNetworkView\<close>: a circle around the bank for a flow of a
  bank to itself, a polyline otherwise. \<open>bankCoordinates\<close> is here the map of the banks
  placed with numbers; without coordinates for a bank the call fails (\<open>None\<close>).
\<close>

definition flowLine :: "(jsstring \<rightharpoonup> location) \<Rightarrow> flow \<Rightarrow> shape option" where
  "flowLine bankCoordinates f =
     (case (bankCoordinates (flow_from_bank f), bankCoordinates (flow_to_bank f)) of
        (Some fromCoords, Some toCoords) \<Rightarrow>
          (if flow_from_bank f = flow_to_bank f
           then (let radius = min (max (flow_amount f / 100000) 5) 15
                 in Some (Circle (lat fromCoords, lng fromCoords) (radius * 1000)))
           else Some (Polyline [(lat fromCoords, lng fromCoords), (lat toCoords, lng toCoords)]))
      | _ \<Rightarrow> None)"

section \<open>The animation loops\<close>

text \<open>
  NetworkAnalysis (alerts.js): the view shown, whether the map exists, and the keys of
  \<open>activeAnimations\<close>. \<open>clearMapMarkers\<close> starts every redraw of the map and empties
  \<open>activeAnimations\<close>.
\<close>

datatype view = D3View | MapView

record network_view =
  currentView :: view
  worldMap :: bool
  activeAnimations :: "jsstring set"

definition clearMapMarkers :: "network_view \<Rightarrow> network_view" where
  "clearMapMarkers v = v\<lparr>activeAnimations := {}\<rparr>"

text \<open>
  One frame of \<open>animateDots\<close> of a flow of NetworkAnalysis: the points after the frame,
  and whether the frame called \<open>requestAnimationFrame(animateDots)\<close>.
\<close>

definition NetworkAnalysis_animateDots ::
  "network_view \<Rightarrow> jsstring \<Rightarrow> (real \<times> real) list \<Rightarrow> dot_point list \<Rightarrow> dot_point list \<times> bool" where
  "NetworkAnalysis_animateDots v flowId latlngs points =
     (if currentView v \<noteq> MapView \<or> \<not> worldMap v \<or> flowId \<notin> activeAnimations v
      then (points, False)
      else (map (advance_point latlngs) points, True))"

text \<open>
  Dashboard (part\_000, \<open>updateEnhancedMap\<close>): the interpolation along a path of several
  waypoints; an index out of range reads \<open>undefined\<close>, and indexing into that raises a
  TypeError.
\<close>

definition js_index :: "(real \<times> real) list \<Rightarrow> int \<Rightarrow> (real \<times> real) option" where
  "js_index xs i = (if 0 \<le> i \<and> i < int (length xs) then Some (xs ! nat i) else None)"

definition Dashboard_interpolatePath :: "(real \<times> real) list \<Rightarrow> real \<Rightarrow> interp_result" where
  "Dashboard_interpolatePath latlngs t =
     (let n = int (length latlngs) - 1;
          idx = \<lfloor>t * real_of_int n\<rfloor>;
          frac = t * real_of_int n - real_of_int idx
      in (case (js_index latlngs idx, js_index latlngs (min (idx + 1) n)) of
            (Some p0, Some p1) \<Rightarrow>
              Point (fst p0 + (fst p1 - fst p0) * frac) (snd p0 + (snd p1 - snd p0) * frac)
          | _ \<Rightarrow> TypeError))"

record dash_point =
  dash_dot :: interp_result
  dash_offset :: real

text \<open>
  One frame of \<open>animateDots\<close> of a flow of the Dashboard: the points are advanced in order,
  and \<open>requestAnimationFrame(animateDots)\<close> is the last statement, reached unless a point
  raised an exception. The frame reads nothing but the path and the points.
\<close>

fun Dashboard_animateDots :: "(real \<times> real) list \<Rightarrow> dash_point list \<Rightarrow> dash_point list \<times> bool" where
  "Dashboard_animateDots latlngs [] = ([], True)"
| "Dashboard_animateDots latlngs (p # ps) =
     (let o1 = dash_offset p + 0.005;
          o2 = (if o1 > 1 then 0 else o1)
      in (case Dashboard_interpolatePath latlngs o2 of
            Point y x \<Rightarrow>
              (let (ps', scheduled) = Dashboard_animateDots latlngs ps
               in (p\<lparr>dash_dot := Point y x, dash_offset := o2\<rparr> # ps', scheduled))
          | _ \<Rightarrow> (p\<lparr>dash_offset := o2\<rparr> # ps, False)))"

text \<open>The path of a Dashboard flow: source, a raised midpoint, target.\<close>

definition Dashboard_latlngs :: "real \<times> real \<Rightarrow> real \<times> real \<Rightarrow> (real \<times> real) list" where
  "Dashboard_latlngs src tgt =
     [(fst src, snd src), ((fst src + fst tgt) / 2 + 5, (snd src + snd tgt) / 2), (fst tgt, snd tgt)]"


text \<open>The five dots of a Dashboard flow, and the loop: \<open>n\<close> frames one after the other,
  each scheduled by the one before; the flag tells whether the last of them scheduled a
  next one.\<close>

definition Dashboard_initial_points :: "(real \<times> real) list \<Rightarrow> dash_point list" where
  "Dashboard_initial_points latlngs =
     map (\<lambda>i. let t = real i / 5
               in \<lparr>dash_dot = Dashboard_interpolatePath latlngs t, dash_offset = t\<rparr>)
       [0..<5]"

fun Dashboard_frames :: "nat \<Rightarrow> (real \<times> real) list \<Rightarrow> dash_point list \<Rightarrow> dash_point list \<times> bool" where
  "Dashboard_frames 0 latlngs points = (points, True)"
| "Dashboard_frames (Suc n) latlngs points =
     (let (points', scheduled) = Dashboard_animateDots latlngs points
      in if scheduled then Dashboard_frames n latlngs points' else (points', False))"

section \<open>Invariants of the cash-flow session, and example inputs\<close>


text \<open>
  The codes \<open>"US"\<close> and \<open>"XX"\<close>; the answers of a lookup service: coordinates for the
  first, 404 for an unknown code, and a body whose \<open>latlng\<close> is the empty array;
  \<open>Math.random\<close> returning 0.5 each time (no jitter).
\<close>

definition code_US :: jsstring where
  "code_US = [0x55, 0x53]"

definition code_XX :: jsstring where
  "code_XX = [0x58, 0x58]"

definition name_US :: jsval where
  "name_US = JStr (js_string ''United States'')"

definition coords_US :: located where
  "coords_US = Coordinates \<lparr>lat = 38, lng = - 97, loc_name = name_US\<rparr>"


definition response_US :: response where
  "response_US = Response True (Json (ArrayOf (Elem (Truthy (JNum 38) (JNum (- 97))) (Common name_US))))"

definition response_404 :: response where
  "response_404 = Response False (Json NoElements)"

definition response_empty_latlng :: response where
  "response_empty_latlng =
     Response True (Json (ArrayOf (Elem (Truthy JUndefined JUndefined) (Common name_US))))"

definition example_service :: lookup_service where
  "example_service c = (if c = JStr code_US then response_US else response_404)"



definition example_link :: "jsstring \<Rightarrow> jsstring \<Rightarrow> jsstring option \<Rightarrow> jsstring option \<Rightarrow> link" where
  "example_link a b c d =
     \<lparr>link_source = a, link_target = b, amount = 250000, risk_score = 0.5,
      link_from_bank = c, link_to_bank = d\<rparr>"


section \<open>Properties\<close>

subsection \<open>Group colours\<close>

lemma simpleHash_nonneg: "0 \<le> simpleHash str"
  by (simp add: simpleHash_def)

lemma simpleHash_upper: "simpleHash str \<le> 2 ^ 31"
  unfolding simpleHash_def using sint_range_size [of "foldl hash_step 0 str"]
  by (simp add: word_size abs_le_iff)

lemma js_rem_nonneg: "0 \<le> a \<Longrightarrow> 0 < b \<Longrightarrow> 0 \<le> js_rem a b \<and> js_rem a b < b"
  by (cases "a = 0") (simp_all add: js_rem_def)

lemma color_session_entries:
  "color_session groups g = None \<or> color_session groups g = Some (group_color g)"
proof (induction groups rule: rev_induct)
  case Nil
  show ?case by (simp add: color_session_def)
next
  case (snoc x xs)
  then show ?case
    by (auto simp: color_session_def CashFlowAnalysis_getNodeColor_def Let_def
        split: option.splits)
qed

text \<open>
  C10. For every group name, a call of \<open>getNodeColor\<close> leaves the cache with the colour
  it returned stored under the group and every other entry as it was; a call that finds
  an entry for the group returns the stored string, and a call that finds none computes the
  HSL string and stores it. So calling \<open>getNodeColor\<close> again on the cache the first call
  left returns the same colour string and leaves the cache as it is; at any point of a
  session that started with an empty cache the colour returned for a group is the HSL
  string computed from the hash of its name; the hash is a non-negative integer, and so the
  hue lies in [0,360), the saturation in [70,100) and the lightness in [45,65).
\<close>

theorem C10_node_color_deterministic_and_bounded:
  "snd (CashFlowAnalysis_getNodeColor g c) = c(g \<mapsto> fst (CashFlowAnalysis_getNodeColor g c))
   \<and> CashFlowAnalysis_getNodeColor g (c(g \<mapsto> color)) = (color, c(g \<mapsto> color))
   \<and> CashFlowAnalysis_getNodeColor g (c(g := None))
     = (hsl (color_hue (simpleHash g)) (color_saturation (simpleHash g)) (color_lightness (simpleHash g)),
        c(g \<mapsto> hsl (color_hue (simpleHash g)) (color_saturation (simpleHash g))
                    (color_lightness (simpleHash g))))
   \<and> CashFlowAnalysis_getNodeColor g (snd (CashFlowAnalysis_getNodeColor g c))
     = (fst (CashFlowAnalysis_getNodeColor g c), snd (CashFlowAnalysis_getNodeColor g c))
   \<and> fst (CashFlowAnalysis_getNodeColor g (color_session groups))
     = hsl (color_hue (simpleHash g)) (color_saturation (simpleHash g)) (color_lightness (simpleHash g))
   \<and> 0 \<le> simpleHash g
   \<and> 0 \<le> color_hue (simpleHash g) \<and> color_hue (simpleHash g) < 360
   \<and> 70 \<le> color_saturation (simpleHash g) \<and> color_saturation (simpleHash g) < 100
   \<and> 45 \<le> color_lightness (simpleHash g) \<and> color_lightness (simpleHash g) < 65"
proof -
  have store: "snd (CashFlowAnalysis_getNodeColor g c) = c(g \<mapsto> fst (CashFlowAnalysis_getNodeColor g c))"
    by (auto simp: CashFlowAnalysis_getNodeColor_def Let_def fun_upd_idem split: option.splits)
  have hit: "CashFlowAnalysis_getNodeColor g (c(g \<mapsto> color)) = (color, c(g \<mapsto> color))"
    by (simp add: CashFlowAnalysis_getNodeColor_def)
  have miss: "CashFlowAnalysis_getNodeColor g (c(g := None))
     = (hsl (color_hue (simpleHash g)) (color_saturation (simpleHash g)) (color_lightness (simpleHash g)),
        c(g \<mapsto> hsl (color_hue (simpleHash g)) (color_saturation (simpleHash g))
                    (color_lightness (simpleHash g))))"
    by (simp add: CashFlowAnalysis_getNodeColor_def group_color_def Let_def)
  have idem: "CashFlowAnalysis_getNodeColor g (snd (CashFlowAnalysis_getNodeColor g c))
     = (fst (CashFlowAnalysis_getNodeColor g c), snd (CashFlowAnalysis_getNodeColor g c))"
    by (simp add: CashFlowAnalysis_getNodeColor_def Let_def split: option.splits)
  have sess: "fst (CashFlowAnalysis_getNodeColor g (color_session groups)) = group_color g"
    using color_session_entries [of groups g]
    by (auto simp: CashFlowAnalysis_getNodeColor_def Let_def)
  have h: "0 \<le> simpleHash g" by (rule simpleHash_nonneg)
  have r360: "0 \<le> js_rem (simpleHash g) 360 \<and> js_rem (simpleHash g) 360 < 360"
    using js_rem_nonneg [OF h, of 360] by simp
  have r30: "0 \<le> js_rem (simpleHash g) 30 \<and> js_rem (simpleHash g) 30 < 30"
    using js_rem_nonneg [OF h, of 30] by simp
  have r20: "0 \<le> js_rem (simpleHash g) 20 \<and> js_rem (simpleHash g) 20 < 20"
    using js_rem_nonneg [OF h, of 20] by simp
  have rest: "fst (CashFlowAnalysis_getNodeColor g (color_session groups))
       = hsl (color_hue (simpleHash g)) (color_saturation (simpleHash g)) (color_lightness (simpleHash g))
     \<and> 0 \<le> simpleHash g
     \<and> 0 \<le> color_hue (simpleHash g) \<and> color_hue (simpleHash g) < 360
     \<and> 70 \<le> color_saturation (simpleHash g) \<and> color_saturation (simpleHash g) < 100
     \<and> 45 \<le> color_lightness (simpleHash g) \<and> color_lightness (simpleHash g) < 65"
    using sess h r360 r30 r20
    by (simp add: group_color_def Let_def color_hue_def color_saturation_def color_lightness_def)
  from store hit miss idem rest show ?thesis by blast
qed

text \<open>The group \<open>"Bank"\<close> (the only group the map view uses) hashes to 2062940 and is
  painted \<open>hsl(140, 90%, 45%)\<close>, on the first call and on the second.\<close>

theorem C10_node_color_witness:
  "simpleHash [66, 97, 110, 107] = 2062940
   \<and> snd (CashFlowAnalysis_getNodeColor [66, 97, 110, 107] Map.empty) [66, 97, 110, 107]
       = Some ''hsl(140, 90%, 45%)''
   \<and> CashFlowAnalysis_getNodeColor [66, 97, 110, 107] [[66, 97, 110, 107] \<mapsto> ''red'']
       = (''red'', [[66, 97, 110, 107] \<mapsto> ''red''])
   \<and> fst (CashFlowAnalysis_getNodeColor [66, 97, 110, 107] (color_session [])) = ''hsl(140, 90%, 45%)''
   \<and> fst (CashFlowAnalysis_getNodeColor [66, 97, 110, 107]
        (snd (CashFlowAnalysis_getNodeColor [66, 97, 110, 107] Map.empty))) = ''hsl(140, 90%, 45%)''"
proof -
  have hv: "simpleHash [66, 97, 110, 107] = 2062940"
    by (simp add: simpleHash_def hash_step_def)
  have d140: "digits 140 = ''140''" and d90: "digits 90 = ''90''" and d45: "digits 45 = ''45''"
    by (simp_all add: digits.simps)
  have col: "hsl (color_hue 2062940) (color_saturation 2062940) (color_lightness 2062940)
      = ''hsl(140, 90%, 45%)''"
    by (simp add: hsl_def color_hue_def color_saturation_def color_lightness_def js_rem_def
        number_to_string_def d140 d90 d45)
  have fresh: "fst (CashFlowAnalysis_getNodeColor [66, 97, 110, 107] Map.empty) = ''hsl(140, 90%, 45%)''"
    by (simp add: CashFlowAnalysis_getNodeColor_def group_color_def Let_def hv col)
  show ?thesis
    using C10_node_color_deterministic_and_bounded
      [of "[66, 97, 110, 107]" Map.empty "''red''" "[]"]
      C10_node_color_deterministic_and_bounded
      [of "[66, 97, 110, 107]" Map.empty "''hsl(140, 90%, 45%)''" "[]"] hv col fresh
    by simp
qed

subsection \<open>Risk tiers\<close>

lemma layout_tier_level:
  "map (map node_id) (applyHierarchicalLayout w h [n]) =
     (case layout_tier (avg_risk_score n) of
        High \<Rightarrow> [[node_id n], [], []]
      | Medium \<Rightarrow> [[], [node_id n], []]
      | Low \<Rightarrow> [[], [], [node_id n]])"
  by (simp add: applyHierarchicalLayout_def place_level_def layout_tier_def Let_def enumerate_eq_zip upt_rec)

text \<open>
  C1. The three-way split by risk score is claimed to use the breakpoints 0.7 and 0.4 in the
  layout, the flow colouring and the node colouring alike. Evaluated on the code: a score
  of 0.35 is medium for \<open>getNodeColor\<close> and \<open>getLinkColor\<close> (their lower breakpoint is
  0.3) and low for \<open>riskColor\<close>, for the layout and for the panel \<open>showFlowDetails\<close>
  opens on the same link; a score of exactly 0.7 is high for
  \<open>getNodeColor\<close> and medium for \<open>riskColor\<close> and for the layout (which compare with
  a strict \<open>>\<close>), so a node of score 0.7 is painted red and placed in the medium band.
\<close>

theorem C1_tiers_disagree:
  "tier_of_color (NetworkAnalysis_getNodeColor 0.35) = Medium
   \<and> tier_of_color (NetworkAnalysis_getLinkColor 0.35) = Medium
   \<and> tier_of_color (riskColor 0.35) = Low
   \<and> showFlowDetails_riskLevel 0.35 = (''Low'', ''success'')
   \<and> layout_tier 0.35 = Low
   \<and> tier_of_color (NetworkAnalysis_getNodeColor 0.7) = High
   \<and> tier_of_color (riskColor 0.7) = Medium
   \<and> layout_tier 0.7 = Medium
   \<and> map (map node_id) (applyHierarchicalLayout w h [n\<lparr>avg_risk_score := 0.7\<rparr>])
       = [[], [node_id n], []]
   \<and> map (map node_id) (applyHierarchicalLayout w h [n\<lparr>avg_risk_score := 0.35\<rparr>])
       = [[], [], [node_id n]]"
proof -
  have "map (map node_id) (applyHierarchicalLayout w h [n\<lparr>avg_risk_score := 0.7\<rparr>])
       = [[], [node_id n], []]"
    by (simp add: layout_tier_level layout_tier_def)
  moreover have "map (map node_id) (applyHierarchicalLayout w h [n\<lparr>avg_risk_score := 0.35\<rparr>])
       = [[], [], [node_id n]]"
    by (simp add: layout_tier_level layout_tier_def)
  ultimately show ?thesis
    by (simp add: tier_of_color_def NetworkAnalysis_getNodeColor_def
        NetworkAnalysis_getLinkColor_def riskColor_def layout_tier_def
        showFlowDetails_riskLevel_def)
qed

subsection \<open>The tiered layout\<close>

lemma place_level_nth:
  "i < length level \<Longrightarrow>
   place_level w h k level ! i =
     (level ! i)\<lparr>fx := Some (w / (real (length level) + 1) * (real i + 1)),
                 fy := Some (h / 4 * (real k + 1))\<rparr>"
  by (simp add: place_level_def Let_def nth_enumerate_eq)

lemma length_place_level: "length (place_level w h k level) = length level"
  by (simp add: place_level_def Let_def)

lemma applyHierarchicalLayout_levels:
  "applyHierarchicalLayout w h nodes =
     [place_level w h 0 (filter (\<lambda>n. avg_risk_score n > 0.7) nodes),
      place_level w h 1 (filter (\<lambda>n. avg_risk_score n > 0.4 \<and> avg_risk_score n \<le> 0.7) nodes),
      place_level w h 2 (filter (\<lambda>n. avg_risk_score n \<le> 0.4) nodes)]"
  by (simp add: applyHierarchicalLayout_def Let_def enumerate_eq_zip upt_rec numeral_2_eq_2)

lemma place_level_step:
  assumes "Suc i < length level"
  shows "the (fx (place_level w h k level ! Suc i)) - the (fx (place_level w h k level ! i))
           = w / (real (length level) + 1)
         \<and> fy (place_level w h k level ! i) = Some (h / 4 * (real k + 1))"
proof -
  define X where "X = w / (real (length level) + 1)"
  have i: "i < length level" using assms by simp
  have a: "place_level w h k level ! Suc i =
      (level ! Suc i)\<lparr>fx := Some (X * (real (Suc i) + 1)), fy := Some (h / 4 * (real k + 1))\<rparr>"
    unfolding X_def by (rule place_level_nth [OF assms])
  have b: "place_level w h k level ! i =
      (level ! i)\<lparr>fx := Some (X * (real i + 1)), fy := Some (h / 4 * (real k + 1))\<rparr>"
    unfolding X_def by (rule place_level_nth [OF i])
  have c: "X * (real (Suc i) + 1) - X * (real i + 1) = X"
    by (simp add: algebra_simps)
  have "the (fx (place_level w h k level ! Suc i)) - the (fx (place_level w h k level ! i)) = X
         \<and> fy (place_level w h k level ! i) = Some (h / 4 * (real k + 1))"
    unfolding a b using c by simp
  then show ?thesis by (simp only: X_def)
qed

text \<open>
  C8. With a canvas of positive height, nodes A, B, C of risk scores 0.8, 0.5 and 0.1 are
  placed in the high, the medium and the low band, at the heights \<open>height / 4\<close>,
  \<open>height / 2\<close> and \<open>3 * height / 4\<close>, which are three distinct values. For any node list,
  all nodes of a band have the band's height and neighbours in a band are the same
  horizontal step \<open>width / (n + 1)\<close> apart, \<open>n\<close> the number of nodes in the band.
\<close>

theorem C8_tiered_layout_scenario:
  assumes "avg_risk_score a = 0.8" and "avg_risk_score b = 0.5" and "avg_risk_score c = 0.1"
    and "0 < height"
  shows "applyHierarchicalLayout width height [a, b, c] =
           [[a\<lparr>fx := Some (width / 2), fy := Some (height / 4)\<rparr>],
            [b\<lparr>fx := Some (width / 2), fy := Some (height / 2)\<rparr>],
            [c\<lparr>fx := Some (width / 2), fy := Some (3 * height / 4)\<rparr>]]
         \<and> distinct [height / 4, height / 2, 3 * height / 4]
         \<and> (\<forall>k i. k < 3 \<and> Suc i < length (applyHierarchicalLayout width height nodes ! k) \<longrightarrow>
               the (fx (applyHierarchicalLayout width height nodes ! k ! Suc i))
                 - the (fx (applyHierarchicalLayout width height nodes ! k ! i))
               = width / (real (length (applyHierarchicalLayout width height nodes ! k)) + 1)
             \<and> fy (applyHierarchicalLayout width height nodes ! k ! i) = Some (height / 4 * (real k + 1)))"
proof -
  have scen: "applyHierarchicalLayout width height [a, b, c] =
           [[a\<lparr>fx := Some (width / 2), fy := Some (height / 4)\<rparr>],
            [b\<lparr>fx := Some (width / 2), fy := Some (height / 2)\<rparr>],
            [c\<lparr>fx := Some (width / 2), fy := Some (3 * height / 4)\<rparr>]]"
    using assms by (simp add: applyHierarchicalLayout_levels place_level_def Let_def enumerate_eq_zip)
  have dist: "distinct [height / 4, height / 2, 3 * height / 4]"
    using assms(4) by simp
  have even: "the (fx (applyHierarchicalLayout width height nodes ! k ! Suc i))
                 - the (fx (applyHierarchicalLayout width height nodes ! k ! i))
               = width / (real (length (applyHierarchicalLayout width height nodes ! k)) + 1)
             \<and> fy (applyHierarchicalLayout width height nodes ! k ! i) = Some (height / 4 * (real k + 1))"
    if "k < 3" and "Suc i < length (applyHierarchicalLayout width height nodes ! k)" for k i
  proof -
    from that(1) consider "k = 0" | "k = 1" | "k = 2" by linarith
    then show ?thesis
    proof cases
      case 1
      with that(2) show ?thesis
        using place_level_step [of i _ width height k]
        by (simp add: applyHierarchicalLayout_levels length_place_level)
    next
      case 2
      with that(2) show ?thesis
        using place_level_step [of i _ width height k]
        by (simp add: applyHierarchicalLayout_levels length_place_level)
    next
      case 3
      with that(2) show ?thesis
        using place_level_step [of i _ width height k]
        by (simp add: applyHierarchicalLayout_levels length_place_level)
    qed
  qed
  from scen dist even show ?thesis by blast
qed

theorem C8_tiered_layout_witness:
  "applyHierarchicalLayout 800 600
     [\<lparr>node_id = [65], avg_risk_score = 0.8, node_from_bank = None, node_to_bank = None,
        bank_code = None, country_code = None, fx = None, fy = None\<rparr>,
      \<lparr>node_id = [66], avg_risk_score = 0.5, node_from_bank = None, node_to_bank = None,
        bank_code = None, country_code = None, fx = None, fy = None\<rparr>,
      \<lparr>node_id = [67], avg_risk_score = 0.1, node_from_bank = None, node_to_bank = None,
        bank_code = None, country_code = None, fx = None, fy = None\<rparr>]
   = [[\<lparr>node_id = [65], avg_risk_score = 0.8, node_from_bank = None, node_to_bank = None,
        bank_code = None, country_code = None, fx = Some 400, fy = Some 150\<rparr>],
      [\<lparr>node_id = [66], avg_risk_score = 0.5, node_from_bank = None, node_to_bank = None,
        bank_code = None, country_code = None, fx = Some 400, fy = Some 300\<rparr>],
      [\<lparr>node_id = [67], avg_risk_score = 0.1, node_from_bank = None, node_to_bank = None,
        bank_code = None, country_code = None, fx = Some 400, fy = Some 450\<rparr>]]
   \<and> distinct [600 / 4, 600 / 2, 3 * 600 / (4::real)]"
  using C8_tiered_layout_scenario
    [of "\<lparr>node_id = [65], avg_risk_score = 0.8, node_from_bank = None, node_to_bank = None,
          bank_code = None, country_code = None, fx = None, fy = None\<rparr>"
        "\<lparr>node_id = [66], avg_risk_score = 0.5, node_from_bank = None, node_to_bank = None,
          bank_code = None, country_code = None, fx = None, fy = None\<rparr>"
        "\<lparr>node_id = [67], avg_risk_score = 0.1, node_from_bank = None, node_to_bank = None,
          bank_code = None, country_code = None, fx = None, fy = None\<rparr>"
        600 800 "[]"]
  by simp

subsection \<open>Stroke weights\<close>

lemma drawLinks_stroke_width_mono:
  "a1 \<le> a2 \<Longrightarrow> drawLinks_stroke_width a1 \<le> drawLinks_stroke_width a2"
  by (simp add: drawLinks_stroke_width_def max_def min_def)

lemma drawLinks_stroke_width_range:
  "2 \<le> drawLinks_stroke_width a \<and> drawLinks_stroke_width a \<le> 8"
  by (simp add: drawLinks_stroke_width_def max_def min_def)

lemma flowLine_weight_mono: "a1 \<le> a2 \<Longrightarrow> flowLine_weight a1 \<le> flowLine_weight a2"
  by (simp add: flowLine_weight_def max_def min_def)

lemma flowLine_weight_range: "2 \<le> flowLine_weight a \<and> flowLine_weight a \<le> 8"
  by (simp add: flowLine_weight_def max_def min_def)

lemma polyline_weight_mono: "a1 \<le> a2 \<Longrightarrow> polyline_weight a1 \<le> polyline_weight a2"
  unfolding polyline_weight_def by (intro max.mono order_refl) simp

lemma getEdgeWidth_range: "1 \<le> getEdgeWidth l metric \<and> getEdgeWidth l metric \<le> 8"
  by (simp add: getEdgeWidth_def max_def min_def)

lemma getEdgeWidth_amount_mono:
  assumes "metric \<noteq> ''transaction_count''" and "metric \<noteq> ''risk_score''"
    and "amount l1 \<le> amount l2"
  shows "getEdgeWidth l1 metric \<le> getEdgeWidth l2 metric"
proof -
  have "max 1 (min 8 (sqrt (amount l1 / 50000))) \<le> max 1 (min 8 (sqrt (amount l2 / 50000)))"
    using assms(3) by (intro max.mono min.mono order_refl) simp
  then show ?thesis using assms(1,2) by (simp only: getEdgeWidth_def if_False)
qed

lemma polyline_weight_unbounded: "\<not> (\<exists>hi. \<forall>a. 0 \<le> a \<longrightarrow> polyline_weight a \<le> hi)"
proof
  assume "\<exists>hi. \<forall>a. 0 \<le> a \<longrightarrow> polyline_weight a \<le> hi"
  then obtain hi where hi: "\<forall>a. 0 \<le> a \<longrightarrow> polyline_weight a \<le> hi" by blast
  define m where "m = max hi 3 + 1"
  have m: "0 \<le> m" "hi < m" "3 \<le> m" by (simp_all add: m_def max_def)
  have "polyline_weight (100000 * m\<^sup>2) = m"
    using m by (simp add: polyline_weight_def real_sqrt_mult max_def)
  moreover have "(0::real) \<le> 100000 * m\<^sup>2" by simp
  ultimately have "m \<le> hi" using hi by metis
  with m show False by simp
qed

text \<open>
  C5, as the claim states it, fails on the code. With the width metric \<open>risk_score\<close>
  selected, \<open>getEdgeWidth\<close> gives the edge of the smaller amount the larger width; and the
  weight of a flow line of the network map has a lower bound only: at an amount of
  \<open>10^9\<close> it is 100, where the graph view draws 8, and no number bounds it from above.
\<close>

theorem C5_stroke_weight_counterexample:
  "amount \<lparr>link_source = [65], link_target = [66], amount = 1600000, risk_score = 0.8,
          link_from_bank = None, link_to_bank = None\<rparr> \<le> amount \<lparr>link_source = [66], link_target = [67], amount = 3600000, risk_score = 0.05,
          link_from_bank = None, link_to_bank = None\<rparr>
   \<and> getEdgeWidth \<lparr>link_source = [66], link_target = [67], amount = 3600000, risk_score = 0.05,
          link_from_bank = None, link_to_bank = None\<rparr> ''risk_score'' < getEdgeWidth \<lparr>link_source = [65], link_target = [66], amount = 1600000, risk_score = 0.8,
          link_from_bank = None, link_to_bank = None\<rparr> ''risk_score''
   \<and> polyline_weight 1000000000 = 100
   \<and> drawLinks_stroke_width 1000000000 = 8
   \<and> \<not> (\<exists>hi. \<forall>a. 0 \<le> a \<longrightarrow> polyline_weight a \<le> hi)"
proof -
  have "sqrt (10000::real) = 100" using real_sqrt_abs [of 100] by simp
  then have "polyline_weight 1000000000 = 100" by (simp add: polyline_weight_def)
  then show ?thesis
    using polyline_weight_unbounded
    by (simp add: getEdgeWidth_def drawLinks_stroke_width_def)
qed

text \<open>
  C5, amended. For amounts \<open>0 \<le> a1 \<le> a2\<close> the stroke weight of the smaller amount is at
  most that of the larger one in \<open>drawLinks\<close>, in \<open>getEdgeWidth\<close> under the amount metric
  (any metric value other than \<open>transaction_count\<close> and \<open>risk_score\<close>), in the flow lines
  of the network map and in those of the cash-flow map. The weight lies in [2, 8] in
  \<open>drawLinks\<close> and in the cash-flow map and in [1, 8] in \<open>getEdgeWidth\<close> under every
  metric; in the network map it is at least 3. Under the metrics \<open>risk_score\<close> and
  \<open>transaction_count\<close> the width \<open>getEdgeWidth\<close> gives does not depend on the amount.
\<close>

theorem C5_stroke_weight_monotone_and_ranges:
  assumes "0 \<le> amount l1" and "amount l1 \<le> amount l2"
    and "metric \<noteq> ''transaction_count''" and "metric \<noteq> ''risk_score''"
  shows "drawLinks_stroke_width (amount l1) \<le> drawLinks_stroke_width (amount l2)
       \<and> getEdgeWidth l1 metric \<le> getEdgeWidth l2 metric
       \<and> polyline_weight (amount l1) \<le> polyline_weight (amount l2)
       \<and> flowLine_weight (amount l1) \<le> flowLine_weight (amount l2)
       \<and> 2 \<le> drawLinks_stroke_width (amount l1) \<and> drawLinks_stroke_width (amount l1) \<le> 8
       \<and> 1 \<le> getEdgeWidth l1 any_metric \<and> getEdgeWidth l1 any_metric \<le> 8
       \<and> 2 \<le> flowLine_weight (amount l1) \<and> flowLine_weight (amount l1) \<le> 8
       \<and> 3 \<le> polyline_weight (amount l1)
       \<and> getEdgeWidth l1 ''risk_score'' = max 1 (min 8 (risk_score l1 * 10))
       \<and> getEdgeWidth l1 ''transaction_count'' = 2"
proof -
  have "3 \<le> polyline_weight (amount l1)
       \<and> getEdgeWidth l1 ''risk_score'' = max 1 (min 8 (risk_score l1 * 10))
       \<and> getEdgeWidth l1 ''transaction_count'' = 2"
    by (simp add: polyline_weight_def getEdgeWidth_def)
  then show ?thesis
    using drawLinks_stroke_width_mono [OF assms(2)] getEdgeWidth_amount_mono [OF assms(3,4,2)]
      polyline_weight_mono [OF assms(2)] flowLine_weight_mono [OF assms(2)]
      drawLinks_stroke_width_range [of "amount l1"] getEdgeWidth_range [of l1 any_metric]
      flowLine_weight_range [of "amount l1"]
    by simp
qed

theorem C5_stroke_weight_witness:
  "polyline_weight 1600000 = 4 \<and> polyline_weight 3600000 = 6
   \<and> drawLinks_stroke_width 1600000 \<le> drawLinks_stroke_width 3600000
   \<and> getEdgeWidth \<lparr>link_source = [65], link_target = [66], amount = 1600000, risk_score = 0.8,
          link_from_bank = None, link_to_bank = None\<rparr> ''total_amount'' \<le> getEdgeWidth \<lparr>link_source = [66], link_target = [67], amount = 3600000, risk_score = 0.05,
          link_from_bank = None, link_to_bank = None\<rparr> ''total_amount''
   \<and> flowLine_weight 1600000 = 8
   \<and> getEdgeWidth \<lparr>link_source = [65], link_target = [66], amount = 1600000, risk_score = 0.8,
          link_from_bank = None, link_to_bank = None\<rparr> ''risk_score'' = 8"
proof -
  have s4: "sqrt (16::real) = 4" using real_sqrt_abs [of 4] by simp
  have s6: "sqrt (36::real) = 6" using real_sqrt_abs [of 6] by simp
  have v: "polyline_weight 1600000 = 4 \<and> polyline_weight 3600000 = 6"
    by (simp add: polyline_weight_def s4 s6)
  have w: "flowLine_weight 1600000 = 8 \<and> getEdgeWidth \<lparr>link_source = [65], link_target = [66], amount = 1600000, risk_score = 0.8,
          link_from_bank = None, link_to_bank = None\<rparr> ''risk_score'' = 8"
    by (simp add: flowLine_weight_def getEdgeWidth_def)
  show ?thesis
    using C5_stroke_weight_monotone_and_ranges
      [of "\<lparr>link_source = [65], link_target = [66], amount = 1600000, risk_score = 0.8,
          link_from_bank = None, link_to_bank = None\<rparr>" "\<lparr>link_source = [66], link_target = [67], amount = 3600000, risk_score = 0.05,
          link_from_bank = None, link_to_bank = None\<rparr>" "''total_amount''" "''risk_score''"] v w
    by simp
qed

subsection \<open>Interpolation along a flow path\<close>

lemma interpolatePath_two:
  "interpolatePath [(a, b), (c, d)] t =
     (if t \<le> 0 then Point a b else if 1 \<le> t then Point c d
      else Point (a + (c - a) * t) (b + (d - b) * t))"
  by (simp add: interpolatePath_def array_get_def)

lemma interpolatePath_segment:
  "\<exists>s. 0 \<le> s \<and> s \<le> 1 \<and> interpolatePath [(a, b), (c, d)] t = Point (a + (c - a) * s) (b + (d - b) * s)"
proof -
  consider "t \<le> 0" | "1 \<le> t" | "0 < t" "t < 1" by linarith
  then show ?thesis
  proof cases
    case 1
    then have "interpolatePath [(a, b), (c, d)] t = Point (a + (c - a) * 0) (b + (d - b) * 0)"
      by (simp add: interpolatePath_two)
    then show ?thesis by (intro exI [of _ 0]) simp
  next
    case 2
    then have "interpolatePath [(a, b), (c, d)] t = Point (a + (c - a) * 1) (b + (d - b) * 1)"
      by (simp add: interpolatePath_two)
    then show ?thesis by (intro exI [of _ 1]) simp
  next
    case 3
    then have "interpolatePath [(a, b), (c, d)] t = Point (a + (c - a) * t) (b + (d - b) * t)"
      by (simp add: interpolatePath_two)
    with 3 show ?thesis by (intro exI [of _ t]) simp
  qed
qed

lemma advance_point_segment:
  "\<exists>s. 0 \<le> s \<and> s \<le> 1 \<and>
     dot (advance_point [(a, b), (c, d)] p) = Point (a + (c - a) * s) (b + (d - b) * s)"
proof -
  define o2 where "o2 = (if offset p + speed p > 1 then 0 else offset p + speed p)"
  obtain s where s: "0 \<le> s" "s \<le> 1"
    "interpolatePath [(a, b), (c, d)] o2 = Point (a + (c - a) * s) (b + (d - b) * s)"
    using interpolatePath_segment [of a b c d o2] by blast
  have "dot (advance_point [(a, b), (c, d)] p) = Point (a + (c - a) * s) (b + (d - b) * s)"
    using s(3) by (simp add: advance_point_def Let_def o2_def)
  with s show ?thesis by blast
qed

lemma initial_points_segment:
  "list_all (\<lambda>p. \<exists>s. 0 \<le> s \<and> s \<le> 1 \<and> dot p = Point (a + (c - a) * s) (b + (d - b) * s))
     (initial_points [(a, b), (c, d)])"
  by (simp add: initial_points_def Let_def list_all_iff interpolatePath_segment)

text \<open>
  C9. On a two-point path \<open>interpolatePath\<close> always returns a point: the first waypoint
  for \<open>t \<le> 0\<close>, the last for \<open>t \<ge> 1\<close>, and in between the linear combination of the two;
  in each case the point is a convex combination of the endpoints. So are the position of
  a dot after a frame of the animation, whatever its offset and speed were, and the
  positions the five dots start from.
\<close>

theorem C9_interpolation_clamped_on_segment:
  "interpolatePath [(a, b), (c, d)] t =
     (if t \<le> 0 then Point a b else if 1 \<le> t then Point c d
      else Point (a + (c - a) * t) (b + (d - b) * t))
   \<and> (\<exists>s. 0 \<le> s \<and> s \<le> 1 \<and>
        interpolatePath [(a, b), (c, d)] t = Point (a + (c - a) * s) (b + (d - b) * s))
   \<and> (\<exists>s. 0 \<le> s \<and> s \<le> 1 \<and>
        dot (advance_point [(a, b), (c, d)] p) = Point (a + (c - a) * s) (b + (d - b) * s))
   \<and> list_all (\<lambda>q. \<exists>s. 0 \<le> s \<and> s \<le> 1 \<and> dot q = Point (a + (c - a) * s) (b + (d - b) * s))
        (initial_points [(a, b), (c, d)])"
  using interpolatePath_two [of a b c d t] interpolatePath_segment [of a b c d t]
    advance_point_segment [of a b c d p] initial_points_segment [of a c b d]
  by blast

theorem C9_interpolation_witness:
  "interpolatePath [(0, 0), (10, 20)] (1 / 2) = Point 5 10
   \<and> interpolatePath [(0, 0), (10, 20)] (- 1) = Point 0 0
   \<and> interpolatePath [(0, 0), (10, 20)] 7 = Point 10 20
   \<and> dot (advance_point [(0, 0), (10, 20)] \<lparr>dot = Point 0 0, offset = 0.999, speed = 0.005\<rparr>)
       = Point 0 0"
proof -
  have "dot (advance_point [(0, 0), (10, 20)] \<lparr>dot = Point 0 0, offset = 0.999, speed = 0.005\<rparr>)
       = Point 0 0"
    by (simp add: advance_point_def Let_def interpolatePath_def array_get_def)
  then show ?thesis
    using C9_interpolation_clamped_on_segment [of 0 0 10 20 "1 / 2"]
      C9_interpolation_clamped_on_segment [of 0 0 10 20 "- 1"]
      C9_interpolation_clamped_on_segment [of 0 0 10 20 7]
    by simp
qed

subsection \<open>The coordinate lookup and the cache\<close>

















lemma example_codes:
  "length code_US = 2" "length code_XX = 2" "code_US \<noteq> []" "code_XX \<noteq> []"
  "code_XX \<noteq> code_US" "code_US \<noteq> code_XX"
  by (simp_all add: code_US_def code_XX_def)

lemma js_trim_code_US: "js_trim code_US = code_US"
  by (simp add: js_trim_def is_js_space_def code_US_def)




lemma example_reads:
  "NetworkAnalysis_read response_US = Some coords_US"
  "CashFlowAnalysis_read response_US = Some coords_US"
  "NetworkAnalysis_read response_404 = None"
  "CashFlowAnalysis_read response_404 = None"
  "NetworkAnalysis_read response_empty_latlng = Some Garbled"
  "CashFlowAnalysis_read response_empty_latlng = Some Garbled"
  by (simp_all add: NetworkAnalysis_read_def CashFlowAnalysis_read_def response_US_def
      response_404_def response_empty_latlng_def coords_US_def returned_object_def)

lemma example_service_answers:
  "example_service (JStr code_US) = response_US" "example_service (JStr code_XX) = response_404"
  by (simp_all add: example_service_def example_codes)














subsection \<open>Self-flows\<close>

text \<open>
  C6. A flow of a node to itself is claimed to be drawn as a closed loop. Evaluated on the
  code: \<open>addTransactionFlows\<close> of NetworkAnalysis has no case for it; a self-flow without
  bank codes is the polyline from the location of its node to the same location, and the
  self-flow \<open>A \<rightarrow> A\<close> with the bank codes \<open>"US"\<close>, \<open>"US"\<close> is the polyline from
  (38, -97) to (38, -97). \<open>updateNetworkView\<close> of CashFlowAnalysis does have the case: a
  circle around the bank, of a radius of at least 5000 metres.
\<close>

theorem C6_self_flow_degenerate:
  "transaction_flow_path service locationMap
      (l\<lparr>link_target := link_source l, link_from_bank := None, link_to_bank := None\<rparr>) st
    = (case locationMap (link_source l) of
         None \<Rightarrow> (None, st)
       | Some a \<Rightarrow> (Some (Polyline [(lat a, lng a), (lat a, lng a)]), st))
   \<and> fst (transaction_flow_path example_service Map.empty
        (example_link [65] [65] (Some code_US) (Some code_US)) \<lparr>requests = [], random_calls = 0\<rparr>)
      = Some (Polyline [(38, - 97), (38, - 97)])
   \<and> flowLine bankCoordinates (f\<lparr>flow_to_bank := flow_from_bank f\<rparr>)
      = (case bankCoordinates (flow_from_bank f) of
           None \<Rightarrow> None
         | Some c \<Rightarrow> Some (Circle (lat c, lng c) (min (max (flow_amount f / 100000) 5) 15 * 1000)))
   \<and> 5000 \<le> min (max (flow_amount f / 100000) 5) 15 * 1000"
proof -
  have a: "transaction_flow_path service locationMap
      (l\<lparr>link_target := link_source l, link_from_bank := None, link_to_bank := None\<rparr>) st
    = (case locationMap (link_source l) of
         None \<Rightarrow> (None, st)
       | Some a \<Rightarrow> (Some (Polyline [(lat a, lng a), (lat a, lng a)]), st))"
    by (simp add: transaction_flow_path_def endpoint_def two_letter_def split: option.splits)
  have b: "fst (transaction_flow_path example_service Map.empty
        (example_link [65] [65] (Some code_US) (Some code_US)) \<lparr>requests = [], random_calls = 0\<rparr>)
      = Some (Polyline [(38, - 97), (38, - 97)])"
    by (simp add: transaction_flow_path_def endpoint_def two_letter_def example_link_def
        NetworkAnalysis_fetchCountryCoordinates_def js_trim_code_US example_codes
        example_service_answers example_reads coords_US_def)
  have c: "flowLine bankCoordinates (f\<lparr>flow_to_bank := flow_from_bank f\<rparr>)
      = (case bankCoordinates (flow_from_bank f) of
           None \<Rightarrow> None
         | Some c \<Rightarrow> Some (Circle (lat c, lng c) (min (max (flow_amount f / 100000) 5) 15 * 1000)))"
    by (simp add: flowLine_def Let_def split: option.splits)
  have d: "5000 \<le> min (max (flow_amount f / 100000) 5) 15 * 1000"
    by (simp add: min_def max_def)
  from a b c d show ?thesis by blast
qed

subsection \<open>The animation loops\<close>

lemma Dashboard_interpolatePath_in_range:
  assumes "0 \<le> t" and "t \<le> 1"
  shows "\<exists>y x. Dashboard_interpolatePath (Dashboard_latlngs src tgt) t = Point y x"
proof -
  have lo: "0 \<le> \<lfloor>t * 2\<rfloor>" using assms(1) by simp
  have hi: "\<lfloor>t * 2\<rfloor> \<le> 2" using assms(2) by (simp add: floor_le_iff)
  have "\<lfloor>t * 2\<rfloor> < 3" using hi by simp
  moreover have "0 \<le> min (\<lfloor>t * 2\<rfloor> + 1) 2" using lo by simp
  moreover have "min (\<lfloor>t * 2\<rfloor> + 1) 2 < 3" by simp
  ultimately show ?thesis
    using lo
    by (simp add: Dashboard_interpolatePath_def Dashboard_latlngs_def js_index_def Let_def)
qed

lemma Dashboard_animateDots_runs:
  "snd (Dashboard_animateDots (Dashboard_latlngs src tgt) points) = True
   \<and> list_all (\<lambda>p. 0 \<le> dash_offset p \<and> dash_offset p \<le> 1)
        (fst (Dashboard_animateDots (Dashboard_latlngs src tgt) points))"
  if "list_all (\<lambda>p. 0 \<le> dash_offset p \<and> dash_offset p \<le> 1) points"
  using that
proof (induction points)
  case Nil
  show ?case by simp
next
  case (Cons p ps)
  let ?L = "Dashboard_latlngs src tgt"
  have ih: "snd (Dashboard_animateDots ?L ps) = True
   \<and> list_all (\<lambda>p. 0 \<le> dash_offset p \<and> dash_offset p \<le> 1) (fst (Dashboard_animateDots ?L ps))"
    using Cons by simp
  have p: "0 \<le> dash_offset p" "dash_offset p \<le> 1" using Cons.prems by simp_all
  show ?case
  proof (cases "1 < dash_offset p + 0.005")
    case True
    obtain y x where pt: "Dashboard_interpolatePath ?L 0 = Point y x"
      using Dashboard_interpolatePath_in_range [of 0 src tgt] by auto
    show ?thesis
      using True pt ih by (simp add: Let_def split_def)
  next
    case False
    then obtain y x where pt: "Dashboard_interpolatePath ?L (dash_offset p + 0.005) = Point y x"
      using Dashboard_interpolatePath_in_range [of "dash_offset p + 0.005" src tgt] p by auto
    show ?thesis
      using False pt ih p by (simp add: Let_def split_def)
  qed
qed

lemma Dashboard_initial_points_range:
  "list_all (\<lambda>p. 0 \<le> dash_offset p \<and> dash_offset p \<le> 1) (Dashboard_initial_points latlngs)"
  by (simp add: Dashboard_initial_points_def Let_def list_all_iff)

lemma Dashboard_frames_run:
  "list_all (\<lambda>p. 0 \<le> dash_offset p \<and> dash_offset p \<le> 1) points \<Longrightarrow>
   snd (Dashboard_frames n (Dashboard_latlngs src tgt) points) = True"
proof (induction n arbitrary: points)
  case 0
  show ?case by simp
next
  case (Suc n)
  from Dashboard_animateDots_runs [OF Suc.prems, of src tgt] Suc.IH
  show ?case by (simp add: split_def)
qed

text \<open>
  C7. Every animation loop is claimed to check on every frame that it is still wanted,
  before it schedules the next frame. Evaluated on the code: the loop of the Dashboard
  (\<open>updateEnhancedMap\<close>) checks nothing. Whatever the view or the dataset has become,
  after any number \<open>n\<close> of frames the loop of a flow has scheduled the next frame. The loop
  of NetworkAnalysis does stop: it schedules nothing once \<open>clearMapMarkers\<close> has emptied
  \<open>activeAnimations\<close>, the view is not the map, or the map is gone.
\<close>

theorem C7_dashboard_loop_never_stops:
  "snd (Dashboard_frames n (Dashboard_latlngs src tgt)
          (Dashboard_initial_points (Dashboard_latlngs src tgt))) = True
   \<and> snd (NetworkAnalysis_animateDots (clearMapMarkers v) flowId latlngs points) = False
   \<and> snd (NetworkAnalysis_animateDots (v\<lparr>currentView := D3View\<rparr>) flowId latlngs points) = False
   \<and> snd (NetworkAnalysis_animateDots (v\<lparr>worldMap := False\<rparr>) flowId latlngs points) = False
   \<and> snd (NetworkAnalysis_animateDots
        \<lparr>currentView = MapView, worldMap = True, activeAnimations = {flowId}\<rparr>
        flowId latlngs points) = True"
  using Dashboard_frames_run [OF Dashboard_initial_points_range]
  by (simp add: NetworkAnalysis_animateDots_def clearMapMarkers_def)

theorem C7_dashboard_loop_witness:
  "snd (Dashboard_frames 3 (Dashboard_latlngs (0, 0) (10, 20))
          (Dashboard_initial_points (Dashboard_latlngs (0, 0) (10, 20)))) = True
   \<and> snd (NetworkAnalysis_animateDots
        (clearMapMarkers \<lparr>currentView = MapView, worldMap = True, activeAnimations = {[65]}\<rparr>)
        [65] [(0, 0), (10, 20)] []) = False"
  using C7_dashboard_loop_never_stops
    [of 3 "(0, 0)" "(10, 20)"
        "\<lparr>currentView = MapView, worldMap = True, activeAnimations = {[65]}\<rparr>"
        "[65]" "[(0, 0), (10, 20)]" "[]"]
  by simp


end
